theory Spec2Isabelle
  imports Main "HOL-Library.AList" "HOL-Library.List_Lexorder" "HOL-Library.Product_Lexorder"
    "HOL-Library.Sublist" "HOL-Library.Code_Target_Nat"
begin

section \<open>Python strings\<close>

text \<open>
  A Python \<open>str\<close> is a sequence of Unicode code points. The corpus is Russian, and the
  converter's regular expressions name Cyrillic ranges, so a string is modelled as the
  list of its code points (natural numbers); \<open>u\<close> writes an ASCII literal.
  Python compares strings lexicographically by code point, which is the order on lists.
\<close>

type_synonym pystr = "nat list"

definition u :: "string \<Rightarrow> pystr" where
  "u s = map of_char s"

text \<open>\<open>sep.join(parts)\<close>\<close>

fun py_join :: "pystr \<Rightarrow> pystr list \<Rightarrow> pystr" where
  "py_join sep [] = []"
| "py_join sep [x] = x"
| "py_join sep (x # y # ys) = x @ sep @ py_join sep (y # ys)"

text \<open>\<open>s.endswith(suffix)\<close>\<close>

definition endswith :: "pystr \<Rightarrow> pystr \<Rightarrow> bool" where
  "endswith s sfx = (length sfx \<le> length s \<and> drop (length s - length sfx) s = sfx)"

text \<open>\<open>s.replace(old, new)\<close>: every non-overlapping occurrence, from the left.\<close>

function py_replace :: "pystr \<Rightarrow> pystr \<Rightarrow> pystr \<Rightarrow> pystr" where
  "py_replace old new s =
     (if old = [] then new @ concat (map (\<lambda>c. c # new) s)
      else if s = [] then []
      else if take (length old) s = old then new @ py_replace old new (drop (length old) s)
      else hd s # py_replace old new (tl s))"
  by pat_completeness auto
termination
  by (relation "measure (\<lambda>(old, new, s). length s)") auto

declare py_replace.simps [simp del]

text \<open>\<open>str(n)\<close> for an integer.\<close>

fun digits_of :: "nat \<Rightarrow> pystr" where
  "digits_of n = (if n < 10 then [48 + n] else digits_of (n div 10) @ [48 + n mod 10])"

declare digits_of.simps [simp del]

definition py_str_int :: "int \<Rightarrow> pystr" where
  "py_str_int i = (if i < 0 then 45 # digits_of (nat (- i)) else digits_of (nat i))"

section \<open>Exceptions\<close>

datatype error =
    FileNotFoundError
  | NotADirectoryError
  | InconsistentDatasetError
  | EmptyDirectoryError
  | ValueError
  | KeyError

section \<open>Tokens and sentences\<close>

record morphological_token_dto =
  dto_lemma :: pystr
  dto_pos :: pystr
  dto_tags :: pystr

text \<open>\<open>MorphologicalTokenDTO()\<close> with its defaults.\<close>

definition empty_dto :: morphological_token_dto where
  "empty_dto = \<lparr>dto_lemma = [], dto_pos = [], dto_tags = []\<rparr>"

record conllu_token =
  tok_text :: pystr
  position :: int
  morphological_parameters :: morphological_token_dto

definition ConlluToken :: "pystr \<Rightarrow> conllu_token" where
  "ConlluToken t = \<lparr>tok_text = t, position = 0, morphological_parameters = empty_dto\<rparr>"

definition set_position :: "int \<Rightarrow> conllu_token \<Rightarrow> conllu_token" where
  "set_position p tok = tok\<lparr>position := p\<rparr>"

definition set_morphological_parameters ::
  "morphological_token_dto \<Rightarrow> conllu_token \<Rightarrow> conllu_token" where
  "set_morphological_parameters ps tok = tok\<lparr>morphological_parameters := ps\<rparr>"

text \<open>
  The ten columns that \<open>ConlluToken.get_conllu_text\<close> joins with a tab. A Python string
  is truthy when it is not empty.
\<close>

definition conllu_columns :: "bool \<Rightarrow> conllu_token \<Rightarrow> pystr list" where
  "conllu_columns include_morphological_tags tok =
     (let position' = py_str_int (position tok);
          text = tok_text tok;
          lemma' = dto_lemma (morphological_parameters tok);
          pos' = dto_pos (morphological_parameters tok);
          xpos = u ''_'';
          feats = (if include_morphological_tags \<and> dto_tags (morphological_parameters tok) \<noteq> []
                   then dto_tags (morphological_parameters tok) else u ''_'');
          head = u ''0'';
          deprel = u ''root'';
          deps = u ''_'';
          misc = u ''_''
      in [position', text, lemma', pos', xpos, feats, head, deprel, deps, misc])"

definition token_get_conllu_text :: "bool \<Rightarrow> conllu_token \<Rightarrow> pystr" where
  "token_get_conllu_text include_morphological_tags tok =
     py_join [9] (conllu_columns include_morphological_tags tok)"

record conllu_sentence =
  sent_position :: int
  sent_text :: pystr
  sent_tokens :: "conllu_token list"

definition sentence_get_conllu_text :: "bool \<Rightarrow> conllu_sentence \<Rightarrow> pystr" where
  "sentence_get_conllu_text include_morphological_tags s =
     (let conllu_tokens = map (token_get_conllu_text include_morphological_tags) (sent_tokens s)
      in u ''# sent_id = '' @ py_str_int (sent_position s) @ [10]
         @ u ''# text = '' @ sent_text s @ [10]
         @ py_join [10] conllu_tokens @ [10])"

section \<open>What the code takes from the Python runtime\<close>

text \<open>
  The character classes of the Unicode database, \<open>str.lower\<close> and \<open>int(str)\<close> belong to
  the Python runtime, not to the repository, so they are a parameter of the model:
  \<open>ch_isalpha\<close>, \<open>ch_isdecimal\<close>, \<open>ch_isdigit\<close>, \<open>ch_isnumeric\<close> and \<open>ch_isupper\<close> are the
  predicates of \<open>str\<close> on one character, \<open>str_lower\<close> is \<open>str.lower\<close>, and \<open>str_int s\<close> is
  \<open>int(s)\<close>, \<open>None\<close> where \<open>int\<close> raises \<open>ValueError\<close>.
\<close>

record python =
  ch_isalpha :: "nat \<Rightarrow> bool"
  ch_isdecimal :: "nat \<Rightarrow> bool"
  ch_isdigit :: "nat \<Rightarrow> bool"
  ch_isnumeric :: "nat \<Rightarrow> bool"
  ch_isupper :: "nat \<Rightarrow> bool"
  str_lower :: "pystr \<Rightarrow> pystr"
  str_int :: "pystr \<Rightarrow> int option"

text \<open>\<open>s.isalpha()\<close> and \<open>s.isdigit()\<close>: every character in the class, and at least one.\<close>

definition isalpha :: "python \<Rightarrow> pystr \<Rightarrow> bool" where
  "isalpha py s = (s \<noteq> [] \<and> list_all (ch_isalpha py) s)"

definition isdigit :: "python \<Rightarrow> pystr \<Rightarrow> bool" where
  "isdigit py s = (s \<noteq> [] \<and> list_all (ch_isdigit py) s)"

text \<open>
  The class \<open>\w\<close> of \<open>re\<close> on a \<open>str\<close> pattern: what \<open>str.isalnum\<close> accepts, and the
  underscore.
\<close>

definition ch_isalnum :: "python \<Rightarrow> nat \<Rightarrow> bool" where
  "ch_isalnum py c = (ch_isalpha py c \<or> ch_isdecimal py c \<or> ch_isdigit py c \<or> ch_isnumeric py c)"

definition is_word :: "python \<Rightarrow> nat \<Rightarrow> bool" where
  "is_word py c = (ch_isalnum py c \<or> c = 95)"

text \<open>
  A runtime for evaluating the model on concrete inputs. It is CPython's on the code
  points U+0000 to U+007F, U+0401, U+0410 to U+0451 and U+2102 (double-struck capital
  C, an uppercase letter with no lowercase form), and on the decimal numbers written
  with an optional sign and ASCII digits; it classifies no other code point and parses
  no other number.
\<close>

definition ascii_digit :: "nat \<Rightarrow> bool" where
  "ascii_digit c = (48 \<le> c \<and> c \<le> 57)"

definition basic_isupper :: "nat \<Rightarrow> bool" where
  "basic_isupper c = ((65 \<le> c \<and> c \<le> 90) \<or> c = 1025 \<or> (1040 \<le> c \<and> c \<le> 1071) \<or> c = 8450)"

definition basic_isalpha :: "nat \<Rightarrow> bool" where
  "basic_isalpha c = ((65 \<le> c \<and> c \<le> 90) \<or> (97 \<le> c \<and> c \<le> 122) \<or> c = 1025
                       \<or> (1040 \<le> c \<and> c \<le> 1105) \<or> c = 8450)"

definition basic_lower_cp :: "nat \<Rightarrow> nat" where
  "basic_lower_cp c = (if (65 \<le> c \<and> c \<le> 90) \<or> (1040 \<le> c \<and> c \<le> 1071) then c + 32
                       else if c = 1025 then 1105 else c)"

definition digits_value :: "pystr \<Rightarrow> nat" where
  "digits_value ds = foldl (\<lambda>acc d. 10 * acc + (d - 48)) 0 ds"

definition basic_int :: "pystr \<Rightarrow> int option" where
  "basic_int s =
     (let (sign, ds) = (if s \<noteq> [] \<and> hd s = 45 then (- 1, tl s)
                        else if s \<noteq> [] \<and> hd s = 43 then (1, tl s) else (1, s))
      in if ds \<noteq> [] \<and> list_all ascii_digit ds then Some (sign * int (digits_value ds)) else None)"

definition basic_python :: python where
  "basic_python =
     \<lparr>ch_isalpha = basic_isalpha, ch_isdecimal = ascii_digit, ch_isdigit = ascii_digit,
      ch_isnumeric = ascii_digit, ch_isupper = basic_isupper,
      str_lower = map basic_lower_cp, str_int = basic_int\<rparr>"

section \<open>CorpusManager\<close>

text \<open>
  The file system as the constructor sees it: the path is missing, is something other
  than a directory, or is a directory whose entries are listed in the order the
  operating system returns them (the order of \<open>Path.glob\<close>). An entry has its name, the
  size that \<open>stat\<close> reports and its text.
\<close>

record dir_entry =
  name :: pystr
  st_size :: nat
  file_text :: pystr

datatype path_state = Missing | NotDirectory | Directory "dir_entry list"

fun path_exists :: "path_state \<Rightarrow> bool" where
  "path_exists Missing = False"
| "path_exists _ = True"

fun is_dir :: "path_state \<Rightarrow> bool" where
  "is_dir (Directory _) = True"
| "is_dir _ = False"

text \<open>\<open>path.glob('*' + suffix)\<close>: the entries whose name ends with the suffix, in listing order.\<close>

fun glob_suffix :: "pystr \<Rightarrow> path_state \<Rightarrow> dir_entry list" where
  "glob_suffix sfx (Directory entries) = filter (\<lambda>e. endswith (name e) sfx) entries"
| "glob_suffix sfx _ = []"

text \<open>\<open>s.rfind(c)\<close> and \<open>PurePath.stem\<close>.\<close>

definition rfind :: "nat \<Rightarrow> pystr \<Rightarrow> int" where
  "rfind c s = (if c \<in> set s then int (length s) - 1 - int (length (takeWhile (\<lambda>x. x \<noteq> c) (rev s)))
                else - 1)"

definition stem :: "pystr \<Rightarrow> pystr" where
  "stem nm = (let i = rfind 46 nm in if 0 < i \<and> i < int (length nm) - 1 then take (nat i) nm else nm)"

text \<open>\<open>int(file.stem.split("_")[0])\<close>\<close>

definition leading_id :: "python \<Rightarrow> dir_entry \<Rightarrow> error + int" where
  "leading_id py file =
     (case str_int py (takeWhile (\<lambda>c. c \<noteq> 95) (stem (name file))) of
        None \<Rightarrow> Inl ValueError
      | Some i \<Rightarrow> Inr i)"

text \<open>A list comprehension whose body may raise: the first exception ends it.\<close>

fun try_map :: "('a \<Rightarrow> error + 'b) \<Rightarrow> 'a list \<Rightarrow> error + 'b list" where
  "try_map f [] = Inr []"
| "try_map f (x # xs) =
     (case f x of
        Inl e \<Rightarrow> Inl e
      | Inr y \<Rightarrow> (case try_map f xs of Inl e \<Rightarrow> Inl e | Inr ys \<Rightarrow> Inr (y # ys)))"

text \<open>The loop over \<open>zip(ind, ind[1:])\<close> raises when some \<open>id2 - id1 > 1\<close>.\<close>

definition not_sequential :: "int list \<Rightarrow> bool" where
  "not_sequential ind = list_ex (\<lambda>(id1, id2). id2 - id1 > 1) (zip ind (drop 1 ind))"

definition validate_dataset :: "python \<Rightarrow> path_state \<Rightarrow> error + unit" where
  "validate_dataset py path =
     (if \<not> path_exists path then Inl FileNotFoundError
      else if \<not> is_dir path then Inl NotADirectoryError
      else
        let meta_files = glob_suffix (u ''_meta.json'') path;
            raw_files = glob_suffix (u ''_raw.txt'') path
        in if length meta_files \<noteq> length raw_files then Inl InconsistentDatasetError
           else
             (case try_map (leading_id py) raw_files of
                Inl e \<Rightarrow> Inl e
              | Inr raw_ids \<Rightarrow>
                  (case try_map (leading_id py) meta_files of
                     Inl e \<Rightarrow> Inl e
                   | Inr meta_ids \<Rightarrow>
                       let raw_ind = sort raw_ids; meta_ind = sort meta_ids
                       in if not_sequential raw_ind then Inl InconsistentDatasetError
                          else if not_sequential meta_ind then Inl InconsistentDatasetError
                          else if list_ex (\<lambda>raw_file. st_size raw_file = 0) raw_files
                            then Inl InconsistentDatasetError
                          else if list_ex (\<lambda>meta_file. st_size meta_file = 0) meta_files
                            then Inl InconsistentDatasetError
                          else Inr ())))"

record article =
  article_id :: int
  article_text :: pystr
  conllu_sentences :: "conllu_sentence list"

text \<open>
  Modelled from the spec: \<open>get_article_id_from_filepath\<close> of \<open>core_utils\<close> is not among the
  sources. The spec has the loader "parse its integer ID from the filename", the
  leading integer that validation reads.
\<close>

definition get_article_id_from_filepath :: "python \<Rightarrow> dir_entry \<Rightarrow> error + int" where
  "get_article_id_from_filepath py file = leading_id py file"

text \<open>
  Modelled from the spec: \<open>from_raw\<close> of \<open>core_utils\<close> is not among the sources. The spec
  has it return "a hydrated Article whose text is the file contents", identified by
  the ID of the file.
\<close>

definition from_raw :: "python \<Rightarrow> dir_entry \<Rightarrow> error + article" where
  "from_raw py file =
     (case get_article_id_from_filepath py file of
        Inl e \<Rightarrow> Inl e
      | Inr i \<Rightarrow> Inr \<lparr>article_id = i, article_text = file_text file, conllu_sentences = []\<rparr>)"

text \<open>
  The storage is a \<open>dict\<close>: an association list in insertion order, where assigning to
  a key that is present replaces the value in place (\<open>AList.update\<close>).
\<close>

type_synonym storage = "(int \<times> article) list"

fun scan_files :: "python \<Rightarrow> dir_entry list \<Rightarrow> storage \<Rightarrow> error + storage" where
  "scan_files py [] st = Inr st"
| "scan_files py (raw_file # rest) st =
     (case get_article_id_from_filepath py raw_file of
        Inl e \<Rightarrow> Inl e
      | Inr file_id \<Rightarrow>
          (case from_raw py raw_file of
             Inl e \<Rightarrow> Inl e
           | Inr a \<Rightarrow> scan_files py rest (AList.update file_id a st)))"

definition scan_dataset :: "python \<Rightarrow> path_state \<Rightarrow> storage \<Rightarrow> error + storage" where
  "scan_dataset py path st = scan_files py (glob_suffix (u ''_raw.txt'') path) st"

text \<open>\<open>CorpusManager(path)\<close>: the storage of the constructed manager, or the exception.\<close>

definition CorpusManager :: "python \<Rightarrow> path_state \<Rightarrow> error + storage" where
  "CorpusManager py path =
     (case validate_dataset py path of
        Inl e \<Rightarrow> Inl e
      | Inr _ \<Rightarrow> scan_dataset py path [])"

section \<open>Cleaned forms\<close>

text \<open>\<open>string.punctuation\<close>\<close>

definition string_punctuation :: pystr where
  "string_punctuation =
     [33, 34, 35, 36, 37, 38, 39, 40, 41, 42, 43, 44, 45, 46, 47, 58, 59, 60, 61, 62, 63, 64,
      91, 92, 93, 94, 95, 96, 123, 124, 125, 126]"

text \<open>\<open>ConlluToken.get_cleaned\<close>: lowercase, then delete the characters of \<open>string.punctuation\<close>.\<close>

definition token_get_cleaned :: "python \<Rightarrow> conllu_token \<Rightarrow> pystr" where
  "token_get_cleaned py tok =
     filter (\<lambda>c. c \<notin> set string_punctuation) (str_lower py (tok_text tok))"

text \<open>\<open>re.sub(r'\W+', '', s)\<close>: every maximal run of non-word characters is replaced by nothing.\<close>

function sub_nonword_runs :: "python \<Rightarrow> pystr \<Rightarrow> pystr" where
  "sub_nonword_runs py [] = []"
| "sub_nonword_runs py (c # cs) =
     (if is_word py c then c # sub_nonword_runs py cs
      else sub_nonword_runs py (dropWhile (\<lambda>x. \<not> is_word py x) cs))"
  by pat_completeness auto
termination
  by (relation "measure (\<lambda>(py, s). length s)") (auto simp: length_dropWhile_le less_Suc_eq_le)

definition get_cleaned_sentence :: "python \<Rightarrow> conllu_sentence \<Rightarrow> pystr" where
  "get_cleaned_sentence py s = sub_nonword_runs py (str_lower py (sent_text s))"

section \<open>Tag converters\<close>

text \<open>
  \<open>TagConverter\<close> of \<open>core_utils\<close> is not among the sources. A converter is taken with
  the table it loaded (\<open>_tag_mapping\<close>, a dictionary of dictionaries) and with the category
  names it holds as the attributes \<open>pos\<close>, \<open>case\<close>, \<open>number\<close>, \<open>gender\<close>, \<open>animacy\<close> and \<open>tense\<close>.
\<close>

record tag_converter =
  tag_mapping :: "pystr \<rightharpoonup> (pystr \<rightharpoonup> pystr)"
  attr_pos :: pystr
  attr_case :: pystr
  attr_number :: pystr
  attr_gender :: pystr
  attr_animacy :: pystr
  attr_tense :: pystr

text \<open>\<open>re.search(pattern, s)\<close> for a pattern \<open>[...]+\<close>: the first maximal run of the class.\<close>

definition re_search_run :: "(nat \<Rightarrow> bool) \<Rightarrow> pystr \<Rightarrow> pystr option" where
  "re_search_run cls s =
     (let rest = dropWhile (\<lambda>c. \<not> cls c) s
      in if rest = [] then None else Some (takeWhile cls rest))"

text \<open>\<open>re.findall(pattern, s)\<close> for a pattern \<open>[...]+\<close>: all maximal runs, from the left.\<close>

fun runs :: "(nat \<Rightarrow> bool) \<Rightarrow> pystr \<Rightarrow> pystr \<Rightarrow> pystr list" where
  "runs cls cur [] = (if cur = [] then [] else [cur])"
| "runs cls cur (c # cs) =
     (if cls c then runs cls (cur @ [c]) cs
      else (if cur = [] then [] else [cur]) @ runs cls [] cs)"

definition re_findall_runs :: "(nat \<Rightarrow> bool) \<Rightarrow> pystr \<Rightarrow> pystr list" where
  "re_findall_runs cls s = runs cls [] s"

text \<open>The classes \<open>[A-Z]\<close> and \<open>[\<^verbatim>\<open>U+0430\<close>-\<^verbatim>\<open>U+044F\<close>]\<close> (Cyrillic small a to ya).\<close>

definition upper_A_Z :: "nat \<Rightarrow> bool" where
  "upper_A_Z c = (65 \<le> c \<and> c \<le> 90)"

definition cyrillic_a_ya :: "nat \<Rightarrow> bool" where
  "cyrillic_a_ya c = (1072 \<le> c \<and> c \<le> 1103)"

subsection \<open>MystemTagConverter\<close>

definition mystem_convert_pos :: "tag_converter \<Rightarrow> pystr \<Rightarrow> error + pystr" where
  "mystem_convert_pos conv tgs =
     (case re_search_run upper_A_Z tgs of
        None \<Rightarrow> Inr []
      | Some pos_match \<Rightarrow>
          (case tag_mapping conv (u ''POS'') of
             None \<Rightarrow> Inl KeyError
           | Some pos_table \<Rightarrow>
               (case pos_table pos_match of
                  None \<Rightarrow> Inr []
                | Some v \<Rightarrow> Inr v)))"

definition pos_specific_categories :: "tag_converter \<Rightarrow> (pystr \<times> pystr list) list" where
  "pos_specific_categories conv =
     [(u ''NOUN'', [attr_case conv, attr_number conv, attr_gender conv, attr_animacy conv]),
      (u ''VERB'', [attr_tense conv, attr_number conv, attr_gender conv]),
      (u ''ADJ'', [attr_case conv, attr_number conv, attr_gender conv]),
      (u ''NUM'', [attr_case conv, attr_number conv, attr_gender conv]),
      (u ''PRON'', [attr_case conv, attr_number conv, attr_gender conv, attr_animacy conv])]"

text \<open>
  The dictionary comprehension of \<open>convert_morphological_tags\<close>: for each category, for
  each extracted tag, \<open>tag in self._tag_mapping[category]\<close> is tested (a \<open>KeyError\<close> when
  the table has no such category) and the entry of the category is set.
\<close>

fun collect_tags ::
  "tag_converter \<Rightarrow> pystr \<Rightarrow> pystr list \<Rightarrow> (pystr \<times> pystr) list \<Rightarrow> error + (pystr \<times> pystr) list" where
  "collect_tags conv category [] ud_tags = Inr ud_tags"
| "collect_tags conv category (tag # rest) ud_tags =
     (case tag_mapping conv category of
        None \<Rightarrow> Inl KeyError
      | Some table \<Rightarrow>
          (case table tag of
             None \<Rightarrow> collect_tags conv category rest ud_tags
           | Some v \<Rightarrow> collect_tags conv category rest (AList.update category v ud_tags)))"

fun collect_categories ::
  "tag_converter \<Rightarrow> pystr list \<Rightarrow> pystr list \<Rightarrow> (pystr \<times> pystr) list \<Rightarrow> error + (pystr \<times> pystr) list" where
  "collect_categories conv [] extracted_tags ud_tags = Inr ud_tags"
| "collect_categories conv (category # rest) extracted_tags ud_tags =
     (case collect_tags conv category extracted_tags ud_tags of
        Inl e \<Rightarrow> Inl e
      | Inr ud_tags' \<Rightarrow> collect_categories conv rest extracted_tags ud_tags')"

text \<open>\<open>f'{category}={value}'\<close>\<close>

definition category_value :: "pystr \<times> pystr \<Rightarrow> pystr" where
  "category_value cv = fst cv @ u ''='' @ snd cv"

definition mystem_convert_morphological_tags :: "tag_converter \<Rightarrow> pystr \<Rightarrow> error + pystr" where
  "mystem_convert_morphological_tags conv tgs =
     (case mystem_convert_pos conv tgs of
        Inl e \<Rightarrow> Inl e
      | Inr pos \<Rightarrow>
          let extracted_tags =
                re_findall_runs cyrillic_a_ya
                  (takeWhile (\<lambda>c. c \<noteq> 124) (py_replace [41] [] (py_replace [40] [] tgs)))
          in (case map_of (pos_specific_categories conv) pos of
                None \<Rightarrow> Inl KeyError
              | Some categories \<Rightarrow>
                  (case collect_categories conv categories extracted_tags [] of
                     Inl e \<Rightarrow> Inl e
                   | Inr ud_tags \<Rightarrow> Inr (py_join (u ''|'') (map category_value (sort ud_tags))))))"

subsection \<open>OpenCorporaTagConverter\<close>

text \<open>
  An OpenCorpora tag object: each attribute is a string or \<open>None\<close> (also the value of
  \<open>getattr(tags, attr, None)\<close> for an attribute the object lacks).
\<close>

record opencorpora_tag =
  oc_POS :: "pystr option"
  oc_case :: "pystr option"
  oc_number :: "pystr option"
  oc_gender :: "pystr option"
  oc_animacy :: "pystr option"

definition opencorpora_convert_pos :: "tag_converter \<Rightarrow> opencorpora_tag \<Rightarrow> error + pystr" where
  "opencorpora_convert_pos conv tgs =
     (case tag_mapping conv (attr_pos conv) of
        None \<Rightarrow> Inl KeyError
      | Some pos_table \<Rightarrow>
          (case pos_table (case oc_POS tgs of None \<Rightarrow> u ''UNKN''
                           | Some p \<Rightarrow> if p = [] then u ''UNKN'' else p) of
             None \<Rightarrow> Inl KeyError
           | Some v \<Rightarrow> Inr v))"

definition parsed_tags :: "opencorpora_tag \<Rightarrow> (pystr \<times> pystr option) list" where
  "parsed_tags tgs =
     [(u ''case'', oc_case tgs), (u ''number'', oc_number tgs),
      (u ''gender'', oc_gender tgs), (u ''animacy'', oc_animacy tgs)]"

fun tags_list_of :: "tag_converter \<Rightarrow> (pystr \<times> pystr option) list \<Rightarrow> pystr list" where
  "tags_list_of conv [] = []"
| "tags_list_of conv ((category, val) # rest) =
     (case val of
        None \<Rightarrow> tags_list_of conv rest
      | Some v \<Rightarrow>
          if v = [] then tags_list_of conv rest
          else
            (case tag_mapping conv category of
               None \<Rightarrow> tags_list_of conv rest
             | Some table \<Rightarrow>
                 (case table v of
                    None \<Rightarrow> tags_list_of conv rest
                  | Some mapped_value \<Rightarrow>
                      category_value (category, mapped_value) # tags_list_of conv rest)))"

definition opencorpora_convert_morphological_tags :: "tag_converter \<Rightarrow> opencorpora_tag \<Rightarrow> pystr" where
  "opencorpora_convert_morphological_tags conv tgs =
     py_join (u ''|'') (tags_list_of conv (parsed_tags tgs))"

section \<open>MorphologicalAnalysisPipeline\<close>

text \<open>
  A token of the Mystem analysis: its text, and the list under the key \<open>analysis\<close> when
  the token has that key; an analysis has the lemma \<open>lex\<close> and the grammar string \<open>gr\<close>.
\<close>

record analysis_item =
  lex :: pystr
  gr :: pystr

record mystem_token =
  mt_text :: pystr
  analysis :: "analysis_item list option"

text \<open>
  The pipeline holds its corpus, its analyzer and its converter. \<open>split_by_sentence\<close> of
  \<open>core_utils\<close> is not among the sources and is taken with them.
\<close>

record pipeline =
  corpus :: storage
  mystem_analyzer :: "pystr \<Rightarrow> mystem_token list"
  converter :: tag_converter
  split_by_sentence :: "pystr \<Rightarrow> pystr list"

text \<open>\<open>word_regex.match(s)\<close> for \<open>\w+|[.]\<close>: the string starts with a word character or a period.\<close>

definition word_regex_match :: "python \<Rightarrow> pystr \<Rightarrow> bool" where
  "word_regex_match py s = (case s of [] \<Rightarrow> False | c # _ \<Rightarrow> is_word py c \<or> c = 46)"

text \<open>The text of a retained token, after \<open>'. '\<close> is replaced in a token that ends with it.\<close>

definition token_text :: "mystem_token \<Rightarrow> pystr" where
  "token_text token =
     (if endswith (mt_text token) (u ''. '') then py_replace (u ''. '') (u ''.'') (mt_text token)
      else mt_text token)"

text \<open>The lemma, part of speech and features of a retained token whose text is \<open>txt\<close>.\<close>

definition token_morphology ::
  "python \<Rightarrow> tag_converter \<Rightarrow> pystr \<Rightarrow> mystem_token \<Rightarrow> error + morphological_token_dto" where
  "token_morphology py conv txt token =
     (if isalpha py txt then
        (case analysis token of
           Some (first # _) \<Rightarrow>
             (case mystem_convert_pos conv (gr first) of
                Inl e \<Rightarrow> Inl e
              | Inr p \<Rightarrow>
                  (case mystem_convert_morphological_tags conv (gr first) of
                     Inl e \<Rightarrow> Inl e
                   | Inr t \<Rightarrow> Inr \<lparr>dto_lemma = lex first, dto_pos = p, dto_tags = t\<rparr>))
         | _ \<Rightarrow> Inr \<lparr>dto_lemma = txt, dto_pos = u ''X'', dto_tags = []\<rparr>)
      else if isdigit py txt then Inr \<lparr>dto_lemma = txt, dto_pos = u ''NUM'', dto_tags = []\<rparr>
      else Inr \<lparr>dto_lemma = txt, dto_pos = u ''PUNCT'', dto_tags = []\<rparr>)"

text \<open>
  The loop over the tokens of one sentence, with \<open>sentence_counter\<close> and the list
  \<open>conllu_tokens\<close> built so far. (The variable \<open>counter\<close> of the source is written and
  never read.)
\<close>

fun process_tokens ::
  "python \<Rightarrow> tag_converter \<Rightarrow> mystem_token list \<Rightarrow> int \<Rightarrow> conllu_token list
     \<Rightarrow> error + conllu_token list" where
  "process_tokens py conv [] sentence_counter conllu_tokens = Inr conllu_tokens"
| "process_tokens py conv (token # rest) sentence_counter conllu_tokens =
     (if \<not> word_regex_match py (mt_text token)
      then process_tokens py conv rest sentence_counter conllu_tokens
      else
        (case token_morphology py conv (token_text token) token of
           Inl e \<Rightarrow> Inl e
         | Inr parameters \<Rightarrow>
             process_tokens py conv rest (sentence_counter + 1)
               (conllu_tokens @
                  [set_morphological_parameters parameters
                     (set_position (sentence_counter + 1) (ConlluToken (token_text token)))])))"

text \<open>The loop over \<open>enumerate(split_by_sentence(text))\<close>.\<close>

fun process_sentences ::
  "python \<Rightarrow> pipeline \<Rightarrow> int \<Rightarrow> pystr list \<Rightarrow> conllu_sentence list \<Rightarrow> error + conllu_sentence list" where
  "process_sentences py pl sentence_idx [] sentences = Inr sentences"
| "process_sentences py pl sentence_idx (sentence # rest) sentences =
     (case process_tokens py (converter pl) (mystem_analyzer pl sentence) 0 [] of
        Inl e \<Rightarrow> Inl e
      | Inr conllu_tokens \<Rightarrow>
          process_sentences py pl (sentence_idx + 1) rest
            (sentences @
               [\<lparr>sent_position = sentence_idx, sent_text = sentence, sent_tokens = conllu_tokens\<rparr>]))"

definition process :: "python \<Rightarrow> pipeline \<Rightarrow> pystr \<Rightarrow> error + conllu_sentence list" where
  "process py pl txt = process_sentences py pl 0 (split_by_sentence pl txt) []"

text \<open>
  \<open>to_cleaned\<close> and \<open>to_conllu\<close> of \<open>core_utils\<close> write the artifacts and are not among the
  sources. A run is modelled by the calls it makes to them, in order, each with the
  article it passes (and, for \<open>to_conllu\<close>, \<open>include_morphological_tags\<close> and
  \<open>include_pymorphy_tags\<close>), and by the exception that ended it, if any.
\<close>

datatype written = ToCleaned article | ToConllu article bool bool

fun written_article :: "written \<Rightarrow> article" where
  "written_article (ToCleaned a) = a"
| "written_article (ToConllu a _ _) = a"

fun run_articles ::
  "python \<Rightarrow> pipeline \<Rightarrow> article list \<Rightarrow> written list \<Rightarrow> written list \<times> error option" where
  "run_articles py pl [] out = (out, None)"
| "run_articles py pl (a # rest) out =
     (case process py pl (article_text a) of
        Inl e \<Rightarrow> (out, Some e)
      | Inr sentences \<Rightarrow>
          let a' = a\<lparr>conllu_sentences := sentences\<rparr>
          in run_articles py pl rest
               (out @ [ToCleaned a', ToConllu a' False False, ToConllu a' True False]))"

text \<open>\<open>run\<close> iterates over \<open>self._corpus.get_articles().values()\<close>: the storage, in insertion order.\<close>

definition run :: "python \<Rightarrow> pipeline \<Rightarrow> written list \<times> error option" where
  "run py pl = run_articles py pl (map snd (corpus pl)) []"

section \<open>Sample inputs\<close>

text \<open>Directories: \<open>entry nm txt\<close> is a file named \<open>nm\<close> that holds \<open>txt\<close>.\<close>

definition entry :: "string \<Rightarrow> pystr \<Rightarrow> dir_entry" where
  "entry nm txt = \<lparr>name = u nm, st_size = length txt, file_text = txt\<rparr>"

definition unnumbered_dir :: path_state where
  "unnumbered_dir = Directory [entry ''x_raw.txt'' [], entry ''x_meta.json'' (u ''{}'')]"

definition gap_dir :: path_state where
  "gap_dir = Directory
     [entry ''1_raw.txt'' (u ''a''), entry ''2_raw.txt'' (u ''b''), entry ''4_raw.txt'' (u ''c''),
      entry ''1_meta.json'' (u ''{}''), entry ''2_meta.json'' (u ''{}''), entry ''3_meta.json'' (u ''{}'')]"

definition disjoint_ids_dir :: path_state where
  "disjoint_ids_dir = Directory
     [entry ''1_raw.txt'' (u ''a''), entry ''2_raw.txt'' (u ''b''),
      entry ''5_meta.json'' (u ''{}''), entry ''6_meta.json'' (u ''{}'')]"

text \<open>
  A Mystem table with a few entries (the keys of the feature tables are Cyrillic tag
  codes) and an OpenCorpora table, with the category names of \<open>TagConverter\<close>.
\<close>

definition sample_mapping :: "pystr \<rightharpoonup> (pystr \<rightharpoonup> pystr)" where
  "sample_mapping = map_of
     [(u ''POS'', map_of [(u ''S'', u ''NOUN''), (u ''V'', u ''VERB''), (u ''A'', u ''ADJ'')]),
      (u ''Case'', map_of [([1080, 1084], u ''Nom''), ([1074, 1080, 1085], u ''Acc'')]),
      (u ''Number'', map_of [([1077, 1076], u ''Sing''), ([1084, 1085], u ''Plur'')]),
      (u ''Gender'', map_of [([1084, 1091, 1078], u ''Masc''), ([1078, 1077, 1085], u ''Fem'')]),
      (u ''Animacy'', map_of [([1086, 1076], u ''Anim''), ([1085, 1077, 1086, 1076], u ''Inan'')]),
      (u ''Tense'', map_of [([1087, 1088, 1086, 1096], u ''Past'')])]"

definition sample_converter :: tag_converter where
  "sample_converter =
     \<lparr>tag_mapping = sample_mapping, attr_pos = u ''POS'', attr_case = u ''Case'',
      attr_number = u ''Number'', attr_gender = u ''Gender'', attr_animacy = u ''Animacy'',
      attr_tense = u ''Tense''\<rparr>"

definition oc_mapping :: "pystr \<rightharpoonup> (pystr \<rightharpoonup> pystr)" where
  "oc_mapping = map_of
     [(u ''POS'', map_of [(u ''NOUN'', u ''NOUN''), (u ''UNKN'', u ''X'')]),
      (u ''case'', map_of [(u ''nomn'', u ''Nom'')]),
      (u ''number'', map_of [(u ''sing'', u ''Sing'')]),
      (u ''gender'', map_of [(u ''masc'', u ''Masc'')]),
      (u ''animacy'', map_of [(u ''anim'', u ''Anim'')])]"

definition oc_converter :: tag_converter where
  "oc_converter = sample_converter\<lparr>tag_mapping := oc_mapping\<rparr>"

definition oc_noun :: opencorpora_tag where
  "oc_noun = \<lparr>oc_POS = Some (u ''NOUN''), oc_case = Some (u ''nomn''), oc_number = Some (u ''sing''),
              oc_gender = Some (u ''masc''), oc_animacy = Some (u ''anim'')\<rparr>"

text \<open>
  The grammar string of a masculine animate noun in the nominative singular
  (\<open>S,\<close> then the Cyrillic codes for masculine and animate, \<open>=\<close>, nominative and
  singular), and the grammar string \<open>ADV=\<close> of an adverb.
\<close>

definition gr_noun :: pystr where
  "gr_noun = [83, 44, 1084, 1091, 1078, 44, 1086, 1076, 61, 1080, 1084, 44, 1077, 1076]"

definition gr_adverb :: pystr where
  "gr_adverb = u ''ADV=''"

text \<open>
  An analyzer and a sentence splitter for evaluation. The text has two sentences; the
  first is the Cyrillic noun of \<open>gr_noun\<close> followed by \<open> 2024. ok\<close>, and its analysis has
  the noun with one candidate, a space, the number, a period with its space, the word
  \<open>ok\<close> without candidates and a line end; the second is \<open>ok\<close>.
\<close>

definition sample_sentence :: pystr where
  "sample_sentence = [1082, 1086, 1090] @ u '' 2024. ok''"

definition sample_text :: pystr where
  "sample_text = sample_sentence @ u ''. ok''"

definition sample_tokens :: "mystem_token list" where
  "sample_tokens =
     [\<lparr>mt_text = [1082, 1086, 1090],
       analysis = Some [\<lparr>lex = [1082, 1086, 1090], gr = gr_noun\<rparr>]\<rparr>,
      \<lparr>mt_text = u '' '', analysis = None\<rparr>,
      \<lparr>mt_text = u ''2024'', analysis = None\<rparr>,
      \<lparr>mt_text = u ''. '', analysis = None\<rparr>,
      \<lparr>mt_text = u ''ok'', analysis = Some []\<rparr>,
      \<lparr>mt_text = [10], analysis = None\<rparr>]"

definition sample_analyze :: "pystr \<Rightarrow> mystem_token list" where
  "sample_analyze sentence =
     (if sentence = sample_sentence then sample_tokens
      else if sentence = u ''ok'' then [\<lparr>mt_text = u ''ok'', analysis = None\<rparr>, \<lparr>mt_text = [10], analysis = None\<rparr>]
      else [])"

definition sample_split :: "pystr \<Rightarrow> pystr list" where
  "sample_split txt = (if txt = sample_text then [sample_sentence, u ''ok''] else [txt])"

definition sample_pipeline :: "storage \<Rightarrow> pipeline" where
  "sample_pipeline st =
     \<lparr>corpus = st, mystem_analyzer = sample_analyze, converter = sample_converter,
      split_by_sentence = sample_split\<rparr>"

definition reversed_listing_dir :: path_state where
  "reversed_listing_dir = Directory
     [entry ''2_raw.txt'' (u ''ok''), entry ''1_raw.txt'' sample_text,
      entry ''1_meta.json'' (u ''{}''), entry ''2_meta.json'' (u ''{}'')]"

text \<open>The sentences that the sample pipeline makes of the sample text.\<close>

definition sample_sentences :: "conllu_sentence list" where
  "sample_sentences =
     [\<lparr>sent_position = 0, sent_text = sample_sentence,
       sent_tokens =
         [\<lparr>tok_text = [1082, 1086, 1090], position = 1,
           morphological_parameters =
             \<lparr>dto_lemma = [1082, 1086, 1090], dto_pos = u ''NOUN'',
              dto_tags = u ''Animacy=Anim|Case=Nom|Gender=Masc|Number=Sing''\<rparr>\<rparr>,
          \<lparr>tok_text = u ''2024'', position = 2,
           morphological_parameters = \<lparr>dto_lemma = u ''2024'', dto_pos = u ''NUM'', dto_tags = []\<rparr>\<rparr>,
          \<lparr>tok_text = u ''.'', position = 3,
           morphological_parameters = \<lparr>dto_lemma = u ''.'', dto_pos = u ''PUNCT'', dto_tags = []\<rparr>\<rparr>,
          \<lparr>tok_text = u ''ok'', position = 4,
           morphological_parameters = \<lparr>dto_lemma = u ''ok'', dto_pos = u ''X'', dto_tags = []\<rparr>\<rparr>]\<rparr>,
      \<lparr>sent_position = 1, sent_text = u ''ok'',
       sent_tokens =
         [\<lparr>tok_text = u ''ok'', position = 1,
           morphological_parameters = \<lparr>dto_lemma = u ''ok'', dto_pos = u ''X'', dto_tags = []\<rparr>\<rparr>]\<rparr>]"

text \<open>The storage built from \<open>reversed_listing_dir\<close>, whose listing has article 2 first.\<close>

definition reversed_storage :: storage where
  "reversed_storage =
     [(2, \<lparr>article_id = 2, article_text = u ''ok'', conllu_sentences = []\<rparr>),
      (1, \<lparr>article_id = 1, article_text = sample_text, conllu_sentences = []\<rparr>)]"

section \<open>Notions used in the statements\<close>

text \<open>
  What C7 says of a retained analyzer token and the token made of it: the text is the
  analyzer's (after the replacement of \<open>'. '\<close>), and the lemma is that text, the
  features are empty and the part of speech is \<open>NUM\<close> for digits, \<open>X\<close> for an alphabetic
  text without a candidate analysis, and \<open>PUNCT\<close> for a text neither alphabetic nor
  digits.
\<close>

definition classified :: "python \<Rightarrow> mystem_token \<Rightarrow> conllu_token \<Rightarrow> bool" where
  "classified py token tk =
     (tok_text tk = token_text token
      \<and> (isdigit py (tok_text tk) \<longrightarrow>
            morphological_parameters tk
              = \<lparr>dto_lemma = tok_text tk, dto_pos = u ''NUM'', dto_tags = []\<rparr>)
      \<and> (isalpha py (tok_text tk) \<and> (analysis token = None \<or> analysis token = Some []) \<longrightarrow>
            morphological_parameters tk
              = \<lparr>dto_lemma = tok_text tk, dto_pos = u ''X'', dto_tags = []\<rparr>)
      \<and> (\<not> isalpha py (tok_text tk) \<and> \<not> isdigit py (tok_text tk) \<longrightarrow>
            morphological_parameters tk
              = \<lparr>dto_lemma = tok_text tk, dto_pos = u ''PUNCT'', dto_tags = []\<rparr>))"

text \<open>
  What a call of \<open>to_cleaned\<close> or \<open>to_conllu\<close> writes for: the ID of the article and,
  for \<open>to_conllu\<close>, the two flags.
\<close>

fun written_call :: "written \<Rightarrow> int \<times> (bool \<times> bool) option" where
  "written_call (ToCleaned a) = (article_id a, None)"
| "written_call (ToConllu a include_morphological_tags include_pymorphy_tags) =
     (article_id a, Some (include_morphological_tags, include_pymorphy_tags))"

definition artifacts_of :: "int \<Rightarrow> (int \<times> (bool \<times> bool) option) list" where
  "artifacts_of i = [(i, None), (i, Some (False, False)), (i, Some (True, False))]"

text \<open>The elements of a list in the order of their first occurrence.\<close>

fun first_occurrences :: "int list \<Rightarrow> int list" where
  "first_occurrences [] = []"
| "first_occurrences (x # xs) = x # first_occurrences (filter (\<lambda>y. y \<noteq> x) xs)"

text \<open>
  What C4 says of the two feature strings. For the Mystem converter: the categories
  consulted are those of the converted part of speech, the tags are the Cyrillic runs
  of the grammar string (parentheses removed, up to the first \<open>|\<close>), the value of a
  category is the table's value for the last tag that its table maps, and the pairs are
  listed by increasing category. For the OpenCorpora converter: the pairs are listed in
  the order \<open>case\<close>, \<open>number\<close>, \<open>gender\<close>, \<open>animacy\<close>, one for each attribute that is
  present, not empty and mapped by the table of its category.
\<close>

fun last_match :: "(pystr \<rightharpoonup> pystr) \<Rightarrow> pystr list \<Rightarrow> pystr option" where
  "last_match table [] = None"
| "last_match table (tag # rest) =
     (case last_match table rest of Some v \<Rightarrow> Some v | None \<Rightarrow> table tag)"

definition category_entry :: "tag_converter \<Rightarrow> pystr list \<Rightarrow> pystr \<Rightarrow> pystr option" where
  "category_entry conv extracted category =
     (case tag_mapping conv category of None \<Rightarrow> None | Some table \<Rightarrow> last_match table extracted)"

definition mystem_extracted_tags :: "pystr \<Rightarrow> pystr list" where
  "mystem_extracted_tags tgs =
     re_findall_runs cyrillic_a_ya
       (takeWhile (\<lambda>c. c \<noteq> 124) (py_replace [41] [] (py_replace [40] [] tgs)))"

definition mystem_categories :: "tag_converter \<Rightarrow> pystr \<Rightarrow> pystr list" where
  "mystem_categories conv tgs =
     (case mystem_convert_pos conv tgs of
        Inl e \<Rightarrow> []
      | Inr p \<Rightarrow> (case map_of (pos_specific_categories conv) p of None \<Rightarrow> [] | Some cs \<Rightarrow> cs))"

definition listed_pairs :: "(pystr \<Rightarrow> pystr option) \<Rightarrow> pystr list \<Rightarrow> (pystr \<times> pystr) list" where
  "listed_pairs lookup categories =
     List.map_filter (\<lambda>category. map_option (Pair category) (lookup category)) categories"

definition mystem_features :: "tag_converter \<Rightarrow> pystr \<Rightarrow> (pystr \<times> pystr) list" where
  "mystem_features conv tgs =
     listed_pairs (category_entry conv (mystem_extracted_tags tgs))
       (sort (remdups (mystem_categories conv tgs)))"

definition getattr :: "opencorpora_tag \<Rightarrow> pystr \<Rightarrow> pystr option" where
  "getattr tgs attr =
     (if attr = u ''case'' then oc_case tgs
      else if attr = u ''number'' then oc_number tgs
      else if attr = u ''gender'' then oc_gender tgs
      else if attr = u ''animacy'' then oc_animacy tgs
      else None)"

definition opencorpora_entry :: "tag_converter \<Rightarrow> opencorpora_tag \<Rightarrow> pystr \<Rightarrow> pystr option" where
  "opencorpora_entry conv tgs category =
     (case getattr tgs category of
        None \<Rightarrow> None
      | Some v \<Rightarrow>
          if v = [] then None
          else (case tag_mapping conv category of None \<Rightarrow> None | Some table \<Rightarrow> table v))"

definition opencorpora_features :: "tag_converter \<Rightarrow> opencorpora_tag \<Rightarrow> (pystr \<times> pystr) list" where
  "opencorpora_features conv tgs =
     listed_pairs (opencorpora_entry conv tgs)
       [u ''case'', u ''number'', u ''gender'', u ''animacy'']"

section \<open>Serialisation with and without morphological tags\<close>

lemma conllu_columns_bare: "conllu_columns False tok = (conllu_columns True tok)[5 := u ''_'']"
  by (simp add: conllu_columns_def Let_def)

text \<open>
  C3. The serialisation of a sentence without morphological tags is the serialisation
  with them, line for line and column for column, except that the sixth column of every
  token line is \<open>_\<close>; in the tagged variant each token line has ten columns and the
  sixth is the token's feature string when that is not empty, and \<open>_\<close> otherwise.
\<close>

theorem conllu_bare_is_tagged_with_blank_feats:
  "sentence_get_conllu_text True s =
     u ''# sent_id = '' @ py_str_int (sent_position s) @ [10] @ u ''# text = '' @ sent_text s @ [10]
     @ py_join [10] (map (\<lambda>t. py_join [9] (conllu_columns True t)) (sent_tokens s)) @ [10]
   \<and> sentence_get_conllu_text False s =
     u ''# sent_id = '' @ py_str_int (sent_position s) @ [10] @ u ''# text = '' @ sent_text s @ [10]
     @ py_join [10] (map (\<lambda>t. py_join [9] ((conllu_columns True t)[5 := u ''_''])) (sent_tokens s)) @ [10]
   \<and> length (conllu_columns True t) = 10
   \<and> conllu_columns True t ! 5 =
       (if dto_tags (morphological_parameters t) \<noteq> [] then dto_tags (morphological_parameters t) else u ''_'')
   \<and> conllu_columns False t ! 5 = u ''_''"
proof -
  have tagged: "token_get_conllu_text True = (\<lambda>t. py_join [9] (conllu_columns True t))"
    by (rule ext) (simp add: token_get_conllu_text_def)
  have bare: "token_get_conllu_text False = (\<lambda>t. py_join [9] ((conllu_columns True t)[5 := u ''_'']))"
    by (rule ext) (simp add: token_get_conllu_text_def conllu_columns_bare)
  have cols: "length (conllu_columns True t) = 10"
    by (simp add: conllu_columns_def Let_def)
  have sixth: "conllu_columns True t ! 5 =
       (if dto_tags (morphological_parameters t) \<noteq> [] then dto_tags (morphological_parameters t) else u ''_'')"
    by (simp add: conllu_columns_def Let_def)
  have blank: "conllu_columns False t ! 5 = u ''_''"
    by (simp add: conllu_columns_def Let_def)
  show ?thesis
    unfolding sentence_get_conllu_text_def Let_def tagged bare
    using cols sixth blank by simp
qed

section \<open>Validation of the corpus directory\<close>

lemma not_sequential_iff:
  "not_sequential ind \<longleftrightarrow> (\<exists>i. Suc i < length ind \<and> ind ! Suc i - ind ! i > 1)"
proof -
  have "not_sequential ind \<longleftrightarrow> (\<exists>p \<in> set (zip ind (drop 1 ind)). snd p - fst p > 1)"
    by (simp add: not_sequential_def list_ex_iff case_prod_beta)
  also have "\<dots> \<longleftrightarrow> (\<exists>i. i < length ind - 1 \<and> (drop 1 ind) ! i - ind ! i > 1)"
    by (auto simp: set_zip)
  also have "\<dots> \<longleftrightarrow> (\<exists>i. Suc i < length ind \<and> ind ! Suc i - ind ! i > 1)"
    by (auto simp: less_diff_conv)
  finally show ?thesis .
qed

text \<open>
  C5. The claim has the constructor reject an empty directory as it rejects a missing
  path and a path that is not a directory. The code defines \<open>EmptyDirectoryError\<close>
  ("raised when the directory is empty") and never raises it: on a directory with no
  entries validation returns, and the manager is built with an empty storage, whatever
  the runtime.
\<close>

theorem empty_directory_is_accepted:
  "validate_dataset py (Directory []) = Inr ()
   \<and> CorpusManager py (Directory []) = Inr []
   \<and> validate_dataset py Missing = Inl FileNotFoundError
   \<and> validate_dataset py NotDirectory = Inl NotADirectoryError"
  by (simp add: validate_dataset_def CorpusManager_def scan_dataset_def not_sequential_def)

text \<open>
  C6, as stated, fails: in a directory whose raw file \<open>x_raw.txt\<close> is empty and whose
  metadata file is \<open>x_meta.json\<close> the counts agree and a raw file has size 0, yet
  \<open>int('x')\<close> raises \<open>ValueError\<close> before the sizes are read, so the exception is not
  \<open>InconsistentDatasetError\<close>.
\<close>

theorem unnumbered_empty_file_raises_ValueError:
  "validate_dataset basic_python unnumbered_dir = Inl ValueError
   \<and> length (glob_suffix (u ''_meta.json'') unnumbered_dir)
       = length (glob_suffix (u ''_raw.txt'') unnumbered_dir)
   \<and> (\<exists>f \<in> set (glob_suffix (u ''_raw.txt'') unnumbered_dir). st_size f = 0)"
  by code_simp

text \<open>
  C6, amended. For a directory in which every raw and every metadata file name begins
  with an integer that \<open>int\<close> accepts (\<open>raw_ids\<close> and \<open>meta_ids\<close>, in listing order),
  validation raises \<open>InconsistentDatasetError\<close> if and only if the number of metadata
  files differs from the number of raw files, or two neighbours of the sorted raw IDs or
  of the sorted metadata IDs differ by more than 1, or some raw or metadata file has
  size 0; and otherwise it returns.
\<close>

theorem validate_inconsistent_iff:
  assumes raw: "try_map (leading_id py) (glob_suffix (u ''_raw.txt'') (Directory entries)) = Inr raw_ids"
      and meta: "try_map (leading_id py) (glob_suffix (u ''_meta.json'') (Directory entries)) = Inr meta_ids"
  shows "(validate_dataset py (Directory entries) = Inl InconsistentDatasetError \<longleftrightarrow>
           length (glob_suffix (u ''_meta.json'') (Directory entries))
             \<noteq> length (glob_suffix (u ''_raw.txt'') (Directory entries))
           \<or> (\<exists>i. Suc i < length raw_ids \<and> sort raw_ids ! Suc i - sort raw_ids ! i > 1)
           \<or> (\<exists>i. Suc i < length meta_ids \<and> sort meta_ids ! Suc i - sort meta_ids ! i > 1)
           \<or> (\<exists>f \<in> set (glob_suffix (u ''_raw.txt'') (Directory entries)
                           @ glob_suffix (u ''_meta.json'') (Directory entries)). st_size f = 0))
         \<and> (validate_dataset py (Directory entries) = Inl InconsistentDatasetError
            \<or> validate_dataset py (Directory entries) = Inr ())"
  using raw meta not_sequential_iff [of "sort raw_ids"] not_sequential_iff [of "sort meta_ids"]
  unfolding validate_dataset_def Let_def
  by (auto simp: list_ex_iff simp del: glob_suffix.simps)

text \<open>
  The amended C6 at a directory with raw files 1, 2, 4 and metadata files 1, 2, 3, all
  with content: the IDs are read, the sorted raw IDs have the gap 2 to 4, and
  validation raises \<open>InconsistentDatasetError\<close>.
\<close>

theorem validate_inconsistent_iff_witness:
  "try_map (leading_id basic_python) (glob_suffix (u ''_raw.txt'') gap_dir) = Inr [1, 2, 4]
   \<and> try_map (leading_id basic_python) (glob_suffix (u ''_meta.json'') gap_dir) = Inr [1, 2, 3]
   \<and> sort [1, 2, 4 :: int] ! Suc 1 - sort [1, 2, 4 :: int] ! 1 > 1
   \<and> validate_dataset basic_python gap_dir = Inl InconsistentDatasetError"
proof -
  have raw: "try_map (leading_id basic_python) (glob_suffix (u ''_raw.txt'') gap_dir) = Inr [1, 2, 4]"
    by code_simp
  have meta: "try_map (leading_id basic_python) (glob_suffix (u ''_meta.json'') gap_dir) = Inr [1, 2, 3]"
    by code_simp
  have gap: "Suc 1 < length [1, 2, 4 :: int] \<and> sort [1, 2, 4 :: int] ! Suc 1 - sort [1, 2, 4 :: int] ! 1 > 1"
    by simp
  show ?thesis
    using validate_inconsistent_iff [OF raw [unfolded gap_dir_def] meta [unfolded gap_dir_def]]
      raw meta gap
    unfolding gap_dir_def by blast
qed

text \<open>
  C10. Validation never compares the IDs of the raw files with those of the metadata
  files: in a directory with the files \<open>1_raw.txt\<close>, \<open>2_raw.txt\<close>, \<open>5_meta.json\<close> and
  \<open>6_meta.json\<close>, all with content, the raw IDs are 1, 2 and the metadata IDs 5, 6,
  validation returns, and the constructed storage has exactly the keys 1 and 2.
\<close>

theorem disjoint_ids_are_accepted:
  "try_map (leading_id basic_python) (glob_suffix (u ''_raw.txt'') disjoint_ids_dir) = Inr [1, 2]
   \<and> try_map (leading_id basic_python) (glob_suffix (u ''_meta.json'') disjoint_ids_dir) = Inr [5, 6]
   \<and> validate_dataset basic_python disjoint_ids_dir = Inr ()
   \<and> CorpusManager basic_python disjoint_ids_dir =
       Inr [(1, \<lparr>article_id = 1, article_text = u ''a'', conllu_sentences = []\<rparr>),
            (2, \<lparr>article_id = 2, article_text = u ''b'', conllu_sentences = []\<rparr>)]"
  by code_simp

section \<open>The converters' feature strings\<close>

lemma unlisted_pos_is_KeyError:
  "mystem_convert_pos conv tgs = Inr p \<Longrightarrow> map_of (pos_specific_categories conv) p = None
     \<Longrightarrow> mystem_convert_morphological_tags conv tgs = Inl KeyError"
  by (simp add: mystem_convert_morphological_tags_def)

lemma empty_pos_is_unlisted: "map_of (pos_specific_categories conv) [] = None"
  by (simp add: pos_specific_categories_def u_def)

text \<open>
  C1. The claim has \<open>convert_morphological_tags\<close> not raise on a tag string whose code
  is absent from the POS table. \<open>convert_pos\<close> guards its lookup and returns the empty
  string for such a tag string, as the claim says; but \<open>convert_morphological_tags\<close>
  then indexes its five-entry dictionary with that empty string, so on every such tag
  string it raises \<open>KeyError\<close>.
\<close>

theorem absent_pos_code_raises_KeyError:
  assumes "re_search_run upper_A_Z tgs = Some code"
      and "tag_mapping conv (u ''POS'') = Some pos_table"
      and "pos_table code = None"
  shows "mystem_convert_pos conv tgs = Inr []
         \<and> mystem_convert_morphological_tags conv tgs = Inl KeyError"
proof -
  have "mystem_convert_pos conv tgs = Inr []"
    using assms by (simp add: mystem_convert_pos_def)
  then show ?thesis
    using unlisted_pos_is_KeyError [of conv tgs "[]"] empty_pos_is_unlisted [of conv] by simp
qed

text \<open>
  C1 at the grammar string \<open>ADV=\<close> of an adverb and a table without the code \<open>ADV\<close>.
\<close>

theorem absent_pos_code_raises_KeyError_witness:
  "re_search_run upper_A_Z gr_adverb = Some (u ''ADV'')
   \<and> tag_mapping sample_converter (u ''POS'')
       = Some (map_of [(u ''S'', u ''NOUN''), (u ''V'', u ''VERB''), (u ''A'', u ''ADJ'')])
   \<and> map_of [(u ''S'', u ''NOUN''), (u ''V'', u ''VERB''), (u ''A'', u ''ADJ'')] (u ''ADV'') = None
   \<and> mystem_convert_pos sample_converter gr_adverb = Inr []
   \<and> mystem_convert_morphological_tags sample_converter gr_adverb = Inl KeyError"
proof -
  have code: "re_search_run upper_A_Z gr_adverb = Some (u ''ADV'')"
    by code_simp
  have table: "tag_mapping sample_converter (u ''POS'')
       = Some (map_of [(u ''S'', u ''NOUN''), (u ''V'', u ''VERB''), (u ''A'', u ''ADJ'')])"
    by (simp add: sample_converter_def sample_mapping_def u_def)
  have absent: "map_of [(u ''S'', u ''NOUN''), (u ''V'', u ''VERB''), (u ''A'', u ''ADJ'')] (u ''ADV'') = None"
    by (simp add: u_def)
  show ?thesis
    using absent_pos_code_raises_KeyError [OF code table absent] code table absent by simp
qed

lemma collect_tags_distinct:
  "collect_tags conv category extracted ud = Inr ud' \<Longrightarrow> distinct (map fst ud)
     \<Longrightarrow> distinct (map fst ud')"
  by (induction extracted arbitrary: ud) (auto split: option.splits simp: distinct_update)

lemma collect_categories_distinct:
  "collect_categories conv categories extracted ud = Inr ud' \<Longrightarrow> distinct (map fst ud)
     \<Longrightarrow> distinct (map fst ud')"
  by (induction categories arbitrary: ud) (auto split: sum.splits dest: collect_tags_distinct)

lemma collect_tags_map_of:
  "collect_tags conv category extracted ud = Inr ud' \<Longrightarrow>
     map_of ud' = (case category_entry conv extracted category of
                     None \<Rightarrow> map_of ud
                   | Some v \<Rightarrow> (map_of ud)(category \<mapsto> v))"
proof (induction extracted arbitrary: ud)
  case Nil
  then show ?case
    by (simp add: category_entry_def split: option.splits)
next
  case (Cons tag rest)
  from Cons.prems obtain table where table: "tag_mapping conv category = Some table"
    by (auto split: option.splits)
  show ?case
  proof (cases "table tag")
    case None
    with Cons.prems table have "collect_tags conv category rest ud = Inr ud'"
      by simp
    from Cons.IH [OF this] None table show ?thesis
      by (simp add: category_entry_def split: option.splits)
  next
    case (Some v)
    with Cons.prems table have "collect_tags conv category rest (AList.update category v ud) = Inr ud'"
      by simp
    from Cons.IH [OF this] Some table show ?thesis
      by (simp add: category_entry_def update_conv' split: option.splits)
  qed
qed

lemma collect_categories_map_of:
  "collect_categories conv categories extracted ud = Inr ud' \<Longrightarrow>
     map_of ud' k = (if k \<in> set categories
                     then (case category_entry conv extracted k of
                             None \<Rightarrow> map_of ud k
                           | Some v \<Rightarrow> Some v)
                     else map_of ud k)"
proof (induction categories arbitrary: ud)
  case Nil
  then show ?case by simp
next
  case (Cons category rest)
  from Cons.prems obtain ud1 where
      ud1: "collect_tags conv category extracted ud = Inr ud1"
      and rest: "collect_categories conv rest extracted ud1 = Inr ud'"
    by (auto split: sum.splits)
  from collect_tags_map_of [OF ud1] Cons.IH [OF rest] show ?case
    by (auto split: option.splits)
qed

lemma listed_pairs_keys:
  "map fst (listed_pairs lookup categories) = filter (\<lambda>c. lookup c \<noteq> None) categories"
  by (induction categories) (auto simp: listed_pairs_def map_filter_simps split: option.splits)

lemma listed_pairs_map_of:
  "map_of (listed_pairs lookup categories) k = (if k \<in> set categories then lookup k else None)"
  by (induction categories) (auto simp: listed_pairs_def map_filter_simps split: option.splits)

lemma listed_pairs_set:
  "(c, v) \<in> set (listed_pairs lookup categories) \<longleftrightarrow> c \<in> set categories \<and> lookup c = Some v"
  by (induction categories) (auto simp: listed_pairs_def map_filter_simps split: option.splits)

lemma strict_keys_sorted:
  fixes xs :: "(pystr \<times> pystr) list"
  shows "sorted_wrt (<) (map fst xs) \<Longrightarrow> sorted xs"
  by (induction xs) (auto simp: less_eq_prod_def)

lemma mystem_features_keys:
  "sorted_wrt (<) (map fst (mystem_features conv tgs))"
proof -
  have "sorted_wrt (<) (sort (remdups (mystem_categories conv tgs)))"
    by (simp add: strict_sorted_iff)
  then show ?thesis
    unfolding mystem_features_def listed_pairs_keys by (rule sorted_wrt_filter)
qed

lemma sort_collected:
  assumes ud: "collect_categories conv categories extracted [] = Inr ud"
  shows "sort ud = listed_pairs (category_entry conv extracted) (sort (remdups categories))"
    (is "_ = ?fs")
proof -
  have d_ud: "distinct (map fst ud)"
    using collect_categories_distinct [OF ud] by simp
  have keys: "sorted_wrt (<) (map fst ?fs)"
    unfolding listed_pairs_keys by (rule sorted_wrt_filter) (simp add: strict_sorted_iff)
  then have d_fs: "distinct (map fst ?fs)"
    by (simp add: strict_sorted_iff)
  have "map_of ud = map_of ?fs"
    by (rule ext) (simp add: collect_categories_map_of [OF ud] listed_pairs_map_of
        split: option.splits)
  then have "set ud = set ?fs"
    using d_ud d_fs by (simp add: map_of_inject_set)
  moreover have "distinct (sort ud)" "distinct ?fs"
    using d_ud d_fs by (auto simp: distinct_map)
  moreover have "sorted ?fs"
    using keys by (rule strict_keys_sorted)
  ultimately show ?thesis
    by (intro sorted_distinct_set_unique) simp_all
qed

lemma tags_list_of_getattr:
  "tags_list_of conv (map (\<lambda>c. (c, getattr oc c)) categories)
     = map category_value (listed_pairs (opencorpora_entry conv oc) categories)"
  by (induction categories)
     (simp_all add: listed_pairs_def map_filter_simps opencorpora_entry_def split: option.splits)

lemma parsed_tags_getattr:
  "parsed_tags oc
     = map (\<lambda>c. (c, getattr oc c)) [u ''case'', u ''number'', u ''gender'', u ''animacy'']"
  by (simp add: parsed_tags_def getattr_def u_def)

lemma tags_list_of_listed:
  "tags_list_of conv (parsed_tags oc) = map category_value (opencorpora_features conv oc)"
  unfolding parsed_tags_getattr opencorpora_features_def by (rule tags_list_of_getattr)

text \<open>
  C4. A feature string that \<open>MystemTagConverter.convert_morphological_tags\<close> returns is
  the \<open>|\<close>-join of the \<open>Category=Value\<close> pairs of \<open>mystem_features\<close>: one pair for each
  category of the converted part of speech that has a mapped tag, with the table's
  value, the categories strictly increasing in the order of strings. The feature
  string of \<open>OpenCorporaTagConverter.convert_morphological_tags\<close> is the \<open>|\<close>-join of the
  \<open>Category=Value\<close> pairs of \<open>opencorpora_features\<close>: one pair for each of \<open>case\<close>, \<open>number\<close>,
  \<open>gender\<close>, \<open>animacy\<close>, in this order, whose attribute is present and mapped.
\<close>

theorem feature_strings_order:
  "(mystem_convert_morphological_tags conv tgs = Inr feats \<longrightarrow>
      feats = py_join (u ''|'') (map category_value (mystem_features conv tgs)))
   \<and> sorted_wrt (<) (map fst (mystem_features conv tgs))
   \<and> ((c, v) \<in> set (mystem_features conv tgs) \<longleftrightarrow>
        c \<in> set (mystem_categories conv tgs)
        \<and> category_entry conv (mystem_extracted_tags tgs) c = Some v)
   \<and> opencorpora_convert_morphological_tags conv' oc
       = py_join (u ''|'') (map category_value (opencorpora_features conv' oc))
   \<and> subseq (map fst (opencorpora_features conv' oc))
        [u ''case'', u ''number'', u ''gender'', u ''animacy'']
   \<and> ((c', v') \<in> set (opencorpora_features conv' oc) \<longleftrightarrow>
        c' \<in> set [u ''case'', u ''number'', u ''gender'', u ''animacy'']
        \<and> opencorpora_entry conv' oc c' = Some v')"
proof -
  have mystem: "mystem_convert_morphological_tags conv tgs = Inr feats \<longrightarrow>
      feats = py_join (u ''|'') (map category_value (mystem_features conv tgs))"
  proof
    assume ok: "mystem_convert_morphological_tags conv tgs = Inr feats"
    then obtain p categories ud where
        p: "mystem_convert_pos conv tgs = Inr p"
        and cs: "map_of (pos_specific_categories conv) p = Some categories"
        and ud: "collect_categories conv categories (mystem_extracted_tags tgs) [] = Inr ud"
        and feats: "feats = py_join (u ''|'') (map category_value (sort ud))"
      by (auto simp: mystem_convert_morphological_tags_def mystem_extracted_tags_def Let_def
          split: sum.splits option.splits)
    have "mystem_categories conv tgs = categories"
      using p cs by (simp add: mystem_categories_def)
    with sort_collected [OF ud] feats
    show "feats = py_join (u ''|'') (map category_value (mystem_features conv tgs))"
      by (simp add: mystem_features_def)
  qed
  have oc: "opencorpora_convert_morphological_tags conv' oc
       = py_join (u ''|'') (map category_value (opencorpora_features conv' oc))"
    by (simp add: opencorpora_convert_morphological_tags_def tags_list_of_listed)
  have sub: "subseq (map fst (opencorpora_features conv' oc))
        [u ''case'', u ''number'', u ''gender'', u ''animacy'']"
    unfolding opencorpora_features_def listed_pairs_keys by (rule subseq_filter_left)
  have m_set: "(c, v) \<in> set (mystem_features conv tgs) \<longleftrightarrow>
        c \<in> set (mystem_categories conv tgs)
        \<and> category_entry conv (mystem_extracted_tags tgs) c = Some v"
    unfolding mystem_features_def listed_pairs_set by simp
  have oc_set: "(c', v') \<in> set (opencorpora_features conv' oc) \<longleftrightarrow>
        c' \<in> set [u ''case'', u ''number'', u ''gender'', u ''animacy'']
        \<and> opencorpora_entry conv' oc c' = Some v'"
    unfolding opencorpora_features_def by (rule listed_pairs_set)
  show ?thesis
    by (intro conjI) (rule mystem, rule mystem_features_keys, rule m_set, rule oc, rule sub,
        rule oc_set)
qed

text \<open>
  C4 at a noun: the Mystem converter returns the categories in sorted order (Animacy,
  Case, Gender, Number), the OpenCorpora converter in attribute order (case, number,
  gender, animacy), which is not sorted.
\<close>

theorem feature_strings_order_witness:
  "mystem_convert_morphological_tags sample_converter gr_noun
     = Inr (u ''Animacy=Anim|Case=Nom|Gender=Masc|Number=Sing'')
   \<and> mystem_features sample_converter gr_noun
       = [(u ''Animacy'', u ''Anim''), (u ''Case'', u ''Nom''), (u ''Gender'', u ''Masc''),
          (u ''Number'', u ''Sing'')]
   \<and> u ''Animacy=Anim|Case=Nom|Gender=Masc|Number=Sing''
       = py_join (u ''|'') (map category_value (mystem_features sample_converter gr_noun))
   \<and> opencorpora_features oc_converter oc_noun
       = [(u ''case'', u ''Nom''), (u ''number'', u ''Sing''), (u ''gender'', u ''Masc''),
          (u ''animacy'', u ''Anim'')]
   \<and> opencorpora_convert_morphological_tags oc_converter oc_noun
       = u ''case=Nom|number=Sing|gender=Masc|animacy=Anim''
   \<and> \<not> sorted (map fst (opencorpora_features oc_converter oc_noun))"
proof -
  have m: "mystem_convert_morphological_tags sample_converter gr_noun
     = Inr (u ''Animacy=Anim|Case=Nom|Gender=Masc|Number=Sing'')"
    by code_simp
  have mf: "mystem_features sample_converter gr_noun
       = [(u ''Animacy'', u ''Anim''), (u ''Case'', u ''Nom''), (u ''Gender'', u ''Masc''),
          (u ''Number'', u ''Sing'')]"
    by code_simp
  have ocf: "opencorpora_features oc_converter oc_noun
       = [(u ''case'', u ''Nom''), (u ''number'', u ''Sing''), (u ''gender'', u ''Masc''),
          (u ''animacy'', u ''Anim'')]"
    by code_simp
  have oc: "opencorpora_convert_morphological_tags oc_converter oc_noun
       = u ''case=Nom|number=Sing|gender=Masc|animacy=Anim''"
    by code_simp
  have unsorted: "\<not> sorted (map fst (opencorpora_features oc_converter oc_noun))"
    by code_simp
  from feature_strings_order [of sample_converter gr_noun
        "u ''Animacy=Anim|Case=Nom|Gender=Masc|Number=Sing''"] m
  have "u ''Animacy=Anim|Case=Nom|Gender=Masc|Number=Sing''
       = py_join (u ''|'') (map category_value (mystem_features sample_converter gr_noun))"
    by blast
  with m mf ocf oc unsorted show ?thesis
    by blast
qed

section \<open>The cleaned form of a sentence\<close>

lemma filter_dropWhile_not: "filter P (dropWhile (\<lambda>x. \<not> P x) xs) = filter P xs"
  by (induction xs) auto

lemma sub_nonword_runs_filter: "sub_nonword_runs py s = filter (is_word py) s"
  by (induction py s rule: sub_nonword_runs.induct) (auto simp: filter_dropWhile_not)

text \<open>
  C9, as stated, fails. The cleaned form of the text \<open>A_b\<close>, a space and U+2102 is
  \<open>a_b\<close> and U+2102: the underscore is a word character, though it is one of
  \<open>string.punctuation\<close> (which \<open>ConlluToken.get_cleaned\<close> deletes), and U+2102 is an
  uppercase letter that \<open>str.lower\<close> leaves as it is.
\<close>

theorem cleaned_sentence_keeps_underscore_and_caseless_capitals:
  "get_cleaned_sentence basic_python
      \<lparr>sent_position = 0, sent_text = u ''A_b '' @ [8450], sent_tokens = []\<rparr> = u ''a_b'' @ [8450]
   \<and> 95 \<in> set string_punctuation
   \<and> ch_isupper basic_python 8450"
  by code_simp

text \<open>
  C9, amended. For every sentence text, the cleaned form is the lowercased text
  (\<open>str.lower\<close>) without its non-word characters, in order; every character of it is a
  word character of \<open>re\<close>: one that \<open>str.isalnum\<close> accepts, or the underscore.
\<close>

theorem cleaned_sentence_is_word_characters_of_lowered_text:
  "get_cleaned_sentence py s = filter (is_word py) (str_lower py (sent_text s))
   \<and> list_all (is_word py) (get_cleaned_sentence py s)
   \<and> is_word py = (\<lambda>c. ch_isalpha py c \<or> ch_isdecimal py c \<or> ch_isdigit py c
                        \<or> ch_isnumeric py c \<or> c = 95)"
  by (auto simp: get_cleaned_sentence_def sub_nonword_runs_filter list_all_iff is_word_def
      ch_isalnum_def)

section \<open>Token positions\<close>

lemma process_tokens_positions:
  "process_tokens py conv toks sc acc = Inr out \<Longrightarrow>
     \<exists>new. out = acc @ new \<and> map position new = [sc + 1 .. sc + int (length new)]
        \<and> length new = length (filter (\<lambda>t. word_regex_match py (mt_text t)) toks)"
proof (induction toks arbitrary: sc acc out)
  case Nil
  then show ?case by simp
next
  case (Cons token rest)
  show ?case
  proof (cases "word_regex_match py (mt_text token)")
    case False
    with Cons show ?thesis by simp
  next
    case True
    with Cons.prems obtain parameters where
        rest: "process_tokens py conv rest (sc + 1)
                 (acc @ [set_morphological_parameters parameters
                    (set_position (sc + 1) (ConlluToken (token_text token)))]) = Inr out"
      by (auto split: sum.splits)
    let ?tk = "set_morphological_parameters parameters
                    (set_position (sc + 1) (ConlluToken (token_text token)))"
    from Cons.IH [OF rest] obtain new where new: "out = (acc @ [?tk]) @ new"
        "map position new = [sc + 1 + 1 .. sc + 1 + int (length new)]"
        "length new = length (filter (\<lambda>t. word_regex_match py (mt_text t)) rest)"
      by blast
    have pos: "position ?tk = sc + 1"
      by (simp add: set_morphological_parameters_def set_position_def)
    have "[sc + 1 .. sc + 1 + int (length new)] = (sc + 1) # [sc + 1 + 1 .. sc + 1 + int (length new)]"
      by (rule upto_rec1) simp
    moreover have "sc + int (length (?tk # new)) = sc + 1 + int (length new)"
      by simp
    ultimately have "map position (?tk # new) = [sc + 1 .. sc + int (length (?tk # new))]"
      using new(2) pos by (simp only: list.map)
    with new(1,3) True show ?thesis
      by (intro exI [of _ "?tk # new"]) simp
  qed
qed

lemma process_sentences_result:
  "process_sentences py pl idx ss acc = Inr out \<Longrightarrow>
     \<exists>new. out = acc @ new
        \<and> list_all2 (\<lambda>sentence s. sent_text s = sentence
              \<and> process_tokens py (converter pl) (mystem_analyzer pl sentence) 0 [] = Inr (sent_tokens s))
            ss new"
proof (induction ss arbitrary: idx acc out)
  case Nil
  then show ?case by simp
next
  case (Cons sentence rest)
  from Cons.prems obtain conllu_tokens where
      toks: "process_tokens py (converter pl) (mystem_analyzer pl sentence) 0 [] = Inr conllu_tokens"
      and rest: "process_sentences py pl (idx + 1) rest
                   (acc @ [\<lparr>sent_position = idx, sent_text = sentence, sent_tokens = conllu_tokens\<rparr>])
                 = Inr out"
    by (auto split: sum.splits)
  let ?s = "\<lparr>sent_position = idx, sent_text = sentence, sent_tokens = conllu_tokens\<rparr>"
  from Cons.IH [OF rest] obtain new where new: "out = (acc @ [?s]) @ new"
      "list_all2 (\<lambda>sentence s. sent_text s = sentence
              \<and> process_tokens py (converter pl) (mystem_analyzer pl sentence) 0 [] = Inr (sent_tokens s))
            rest new"
    by blast
  show ?case
    using new toks by (intro exI [of _ "?s # new"]) simp
qed

text \<open>
  C2. When \<open>_process\<close> returns, its sentences are those of \<open>split_by_sentence\<close> in order;
  in each, the positions of the tokens are exactly 1, 2, ..., k, where k is the number
  of tokens of the sentence, which is the number of analyzer tokens that the word
  pattern retains. The count starts again at 1 in every sentence.
\<close>

theorem token_positions_are_1_to_k:
  assumes "process py pl txt = Inr sentences"
  shows "list_all2 (\<lambda>sentence s. sent_text s = sentence
            \<and> map position (sent_tokens s) = [1 .. int (length (sent_tokens s))]
            \<and> length (sent_tokens s)
                = length (filter (\<lambda>t. word_regex_match py (mt_text t)) (mystem_analyzer pl sentence)))
          (split_by_sentence pl txt) sentences"
proof -
  from assms obtain new where new: "sentences = [] @ new"
      "list_all2 (\<lambda>sentence s. sent_text s = sentence
              \<and> process_tokens py (converter pl) (mystem_analyzer pl sentence) 0 [] = Inr (sent_tokens s))
            (split_by_sentence pl txt) new"
    unfolding process_def by (blast dest: process_sentences_result)
  have "\<And>sentence s. process_tokens py (converter pl) (mystem_analyzer pl sentence) 0 [] = Inr (sent_tokens s)
          \<Longrightarrow> map position (sent_tokens s) = [1 .. int (length (sent_tokens s))]
            \<and> length (sent_tokens s)
                = length (filter (\<lambda>t. word_regex_match py (mt_text t)) (mystem_analyzer pl sentence))"
    by (drule process_tokens_positions) auto
  with new(2) have "list_all2 (\<lambda>sentence s. sent_text s = sentence
            \<and> map position (sent_tokens s) = [1 .. int (length (sent_tokens s))]
            \<and> length (sent_tokens s)
                = length (filter (\<lambda>t. word_regex_match py (mt_text t)) (mystem_analyzer pl sentence)))
          (split_by_sentence pl txt) new"
    by (auto elim!: list_all2_mono)
  with new(1) show ?thesis by simp
qed

lemma sample_process:
  "process basic_python (sample_pipeline []) sample_text = Inr sample_sentences"
  by code_simp

text \<open>
  C2 on the sample text: two sentences, with positions 1 to 4 and 1.
\<close>

theorem token_positions_are_1_to_k_witness:
  "process basic_python (sample_pipeline []) sample_text = Inr sample_sentences
   \<and> map (\<lambda>s. map position (sent_tokens s)) sample_sentences = [[1, 2, 3, 4], [1]]
   \<and> list_all2 (\<lambda>sentence s. sent_text s = sentence
            \<and> map position (sent_tokens s) = [1 .. int (length (sent_tokens s))]
            \<and> length (sent_tokens s)
                = length (filter (\<lambda>t. word_regex_match basic_python (mt_text t))
                    (mystem_analyzer (sample_pipeline []) sentence)))
          (split_by_sentence (sample_pipeline []) sample_text) sample_sentences"
proof -
  have "map (\<lambda>s. map position (sent_tokens s)) sample_sentences = [[1, 2, 3, 4], [1]]"
    by (simp add: sample_sentences_def)
  then show ?thesis
    using token_positions_are_1_to_k [OF sample_process] sample_process by simp
qed

section \<open>Classification of tokens\<close>

lemma process_tokens_morphology:
  "process_tokens py conv toks sc acc = Inr out \<Longrightarrow>
     \<exists>new. out = acc @ new
        \<and> list_all2 (\<lambda>token tk. tok_text tk = token_text token
              \<and> token_morphology py conv (token_text token) token = Inr (morphological_parameters tk))
            (filter (\<lambda>t. word_regex_match py (mt_text t)) toks) new"
proof (induction toks arbitrary: sc acc out)
  case Nil
  then show ?case by simp
next
  case (Cons token rest)
  show ?case
  proof (cases "word_regex_match py (mt_text token)")
    case False
    with Cons show ?thesis by simp
  next
    case True
    with Cons.prems obtain parameters where
        morph: "token_morphology py conv (token_text token) token = Inr parameters"
        and rest: "process_tokens py conv rest (sc + 1)
                 (acc @ [set_morphological_parameters parameters
                    (set_position (sc + 1) (ConlluToken (token_text token)))]) = Inr out"
      by (auto split: sum.splits)
    let ?tk = "set_morphological_parameters parameters
                    (set_position (sc + 1) (ConlluToken (token_text token)))"
    from Cons.IH [OF rest] obtain new where new: "out = (acc @ [?tk]) @ new"
        "list_all2 (\<lambda>token tk. tok_text tk = token_text token
              \<and> token_morphology py conv (token_text token) token = Inr (morphological_parameters tk))
            (filter (\<lambda>t. word_regex_match py (mt_text t)) rest) new"
      by blast
    have tk: "tok_text ?tk = token_text token" "morphological_parameters ?tk = parameters"
      by (simp_all add: set_morphological_parameters_def set_position_def ConlluToken_def)
    show ?thesis
      using new True morph tk by (intro exI [of _ "?tk # new"]) simp
  qed
qed

lemma isdigit_not_isalpha:
  "\<not> (\<exists>c. ch_isalpha py c \<and> ch_isdigit py c) \<Longrightarrow> isdigit py s \<Longrightarrow> \<not> isalpha py s"
  by (cases s) (auto simp: isdigit_def isalpha_def)

lemma token_morphology_classified:
  assumes "\<not> (\<exists>c. ch_isalpha py c \<and> ch_isdigit py c)"
      and "tok_text tk = token_text token"
      and "token_morphology py conv (token_text token) token = Inr (morphological_parameters tk)"
  shows "classified py token tk"
  using assms isdigit_not_isalpha [OF assms(1), of "token_text token"]
  unfolding classified_def token_morphology_def
  by (auto split: if_splits option.splits list.splits)

text \<open>
  C7. Let the runtime have no character that is both alphabetic and a digit (as in
  the Unicode database). When \<open>_process\<close> returns, the tokens of each sentence are made
  of the retained analyzer tokens in order, and each is classified as C7 says: digits
  give lemma = text, \<open>NUM\<close> and no features, whatever the analysis; an alphabetic text
  with no candidate analysis gives lemma = text, \<open>X\<close> and no features; a text neither
  alphabetic nor digits gives lemma = text, \<open>PUNCT\<close> and no features.
\<close>

theorem tokens_without_analysis_are_classified:
  assumes "process py pl txt = Inr sentences"
      and "\<not> (\<exists>c. ch_isalpha py c \<and> ch_isdigit py c)"
  shows "list_all2 (\<lambda>sentence s.
            list_all2 (classified py)
              (filter (\<lambda>t. word_regex_match py (mt_text t)) (mystem_analyzer pl sentence))
              (sent_tokens s))
          (split_by_sentence pl txt) sentences"
proof -
  from assms(1) obtain new where new: "sentences = [] @ new"
      "list_all2 (\<lambda>sentence s. sent_text s = sentence
              \<and> process_tokens py (converter pl) (mystem_analyzer pl sentence) 0 [] = Inr (sent_tokens s))
            (split_by_sentence pl txt) new"
    unfolding process_def by (blast dest: process_sentences_result)
  have "\<And>sentence s. process_tokens py (converter pl) (mystem_analyzer pl sentence) 0 [] = Inr (sent_tokens s)
          \<Longrightarrow> list_all2 (classified py)
              (filter (\<lambda>t. word_regex_match py (mt_text t)) (mystem_analyzer pl sentence))
              (sent_tokens s)"
  proof -
    fix sentence s
    assume pt: "process_tokens py (converter pl) (mystem_analyzer pl sentence) 0 [] = Inr (sent_tokens s)"
    from process_tokens_morphology [OF pt] have "list_all2 (\<lambda>token tk. tok_text tk = token_text token
              \<and> token_morphology py (converter pl) (token_text token) token
                  = Inr (morphological_parameters tk))
            (filter (\<lambda>t. word_regex_match py (mt_text t)) (mystem_analyzer pl sentence)) (sent_tokens s)"
      by auto
    then show "list_all2 (classified py)
              (filter (\<lambda>t. word_regex_match py (mt_text t)) (mystem_analyzer pl sentence))
              (sent_tokens s)"
      by (rule list_all2_mono) (auto intro: token_morphology_classified [OF assms(2)])
  qed
  with new(2) have "list_all2 (\<lambda>sentence s.
            list_all2 (classified py)
              (filter (\<lambda>t. word_regex_match py (mt_text t)) (mystem_analyzer pl sentence))
              (sent_tokens s))
          (split_by_sentence pl txt) new"
    by (auto elim!: list_all2_mono)
  with new(1) show ?thesis by simp
qed

lemma basic_python_letters_are_not_digits:
  "\<not> (\<exists>c. ch_isalpha basic_python c \<and> ch_isdigit basic_python c)"
  by (auto simp: basic_python_def basic_isalpha_def ascii_digit_def)

text \<open>
  C7 on the sample text: the noun is converted, \<open>2024\<close> is \<open>NUM\<close>, the period is \<open>PUNCT\<close>
  and \<open>ok\<close>, which has no candidate analysis, is \<open>X\<close>.
\<close>

theorem tokens_without_analysis_are_classified_witness:
  "process basic_python (sample_pipeline []) sample_text = Inr sample_sentences
   \<and> \<not> (\<exists>c. ch_isalpha basic_python c \<and> ch_isdigit basic_python c)
   \<and> map (\<lambda>s. map (\<lambda>tk. dto_pos (morphological_parameters tk)) (sent_tokens s)) sample_sentences
       = [[u ''NOUN'', u ''NUM'', u ''PUNCT'', u ''X''], [u ''X'']]
   \<and> list_all2 (\<lambda>sentence s.
            list_all2 (classified basic_python)
              (filter (\<lambda>t. word_regex_match basic_python (mt_text t))
                 (mystem_analyzer (sample_pipeline []) sentence))
              (sent_tokens s))
          (split_by_sentence (sample_pipeline []) sample_text) sample_sentences"
proof -
  have "map (\<lambda>s. map (\<lambda>tk. dto_pos (morphological_parameters tk)) (sent_tokens s)) sample_sentences
       = [[u ''NOUN'', u ''NUM'', u ''PUNCT'', u ''X''], [u ''X'']]"
    by (simp add: sample_sentences_def)
  then show ?thesis
    using tokens_without_analysis_are_classified [OF sample_process basic_python_letters_are_not_digits]
      sample_process basic_python_letters_are_not_digits
    by simp
qed

section \<open>The order in which a run writes\<close>

lemma scan_files_keys:
  "scan_files py files st = Inr st' \<Longrightarrow> try_map (leading_id py) files = Inr ids \<Longrightarrow>
     map fst st' = map fst st @ first_occurrences (filter (\<lambda>i. i \<notin> set (map fst st)) ids)"
proof (induction files arbitrary: st ids)
  case Nil
  then show ?case by simp
next
  case (Cons raw_file rest)
  from Cons.prems(1) obtain file_id a where
      fid: "leading_id py raw_file = Inr file_id"
      and rest: "scan_files py rest (AList.update file_id a st) = Inr st'"
    by (auto simp: get_article_id_from_filepath_def split: sum.splits)
  from Cons.prems(2) fid obtain ids' where
      ids: "ids = file_id # ids'" and ids': "try_map (leading_id py) rest = Inr ids'"
    by (auto split: sum.splits)
  note IH = Cons.IH [OF rest ids']
  show ?case
  proof (cases "file_id \<in> set (map fst st)")
    case True
    then have "map fst (AList.update file_id a st) = map fst st"
      by (simp add: update_keys del: set_map)
    with IH True ids show ?thesis by simp
  next
    case False
    then have keys: "map fst (AList.update file_id a st) = map fst st @ [file_id]"
      by (simp add: update_keys del: set_map)
    have "filter (\<lambda>i. i \<notin> set (map fst st @ [file_id])) ids'
            = filter (\<lambda>y. y \<noteq> file_id) (filter (\<lambda>i. i \<notin> set (map fst st)) ids')"
      by (auto intro: filter_cong)
    with IH keys False ids show ?thesis by simp
  qed
qed

lemma update_article_ids:
  "\<forall>(k, a) \<in> set st. article_id a = k \<Longrightarrow> article_id v = k'
     \<Longrightarrow> \<forall>(k, a) \<in> set (AList.update k' v st). article_id a = k"
  by (induction st) auto

lemma scan_files_article_ids:
  "scan_files py files st = Inr st' \<Longrightarrow> \<forall>(k, a) \<in> set st. article_id a = k
     \<Longrightarrow> \<forall>(k, a) \<in> set st'. article_id a = k"
proof (induction files arbitrary: st)
  case Nil
  then show ?case by simp
next
  case (Cons raw_file rest)
  from Cons.prems(1) obtain file_id a where
      a: "from_raw py raw_file = Inr a" "get_article_id_from_filepath py raw_file = Inr file_id"
      and rest: "scan_files py rest (AList.update file_id a st) = Inr st'"
    by (auto split: sum.splits)
  from a have "article_id a = file_id"
    by (auto simp: from_raw_def)
  with Cons.prems(2) have "\<forall>(k, a) \<in> set (AList.update file_id a st). article_id a = k"
    by (rule update_article_ids)
  with Cons.IH [OF rest] show ?case .
qed

lemma storage_article_ids:
  "\<forall>(k, a) \<in> set st. article_id a = k \<Longrightarrow> map (article_id \<circ> snd) st = map fst st"
  by (induction st) auto

lemma run_articles_calls:
  "run_articles py pl as out = (evs, err) \<Longrightarrow>
     \<exists>n \<le> length as. map written_call evs
          = map written_call out @ concat (map (\<lambda>a. artifacts_of (article_id a)) (take n as))
        \<and> (err = None \<longrightarrow> n = length as)"
proof (induction as arbitrary: out)
  case Nil
  then show ?case by auto
next
  case (Cons a rest)
  show ?case
  proof (cases "process py pl (article_text a)")
    case (Inl e)
    with Cons.prems have "evs = out" "err = Some e" by auto
    then show ?thesis by (intro exI [of _ 0]) simp
  next
    case (Inr sentences)
    let ?a = "a\<lparr>conllu_sentences := sentences\<rparr>"
    from Cons.prems Inr have
      "run_articles py pl rest (out @ [ToCleaned ?a, ToConllu ?a False False, ToConllu ?a True False])
         = (evs, err)"
      by (simp add: Let_def)
    from Cons.IH [OF this] obtain n where n: "n \<le> length rest"
        "map written_call evs
          = map written_call (out @ [ToCleaned ?a, ToConllu ?a False False, ToConllu ?a True False])
            @ concat (map (\<lambda>a. artifacts_of (article_id a)) (take n rest))"
        "err = None \<longrightarrow> n = length rest"
      by blast
    then show ?thesis
      by (intro exI [of _ "Suc n"]) (simp add: artifacts_of_def)
  qed
qed

text \<open>
  C8, as stated, fails. The listing of \<open>reversed_listing_dir\<close> has \<open>2_raw.txt\<close> before
  \<open>1_raw.txt\<close>; the corpus is valid, the run ends without an exception, and the three
  artifacts of article 2 are written before those of article 1.
\<close>

theorem run_writes_article_2_before_article_1:
  "validate_dataset basic_python reversed_listing_dir = Inr ()
   \<and> CorpusManager basic_python reversed_listing_dir = Inr reversed_storage
   \<and> snd (run basic_python (sample_pipeline reversed_storage)) = None
   \<and> map (fst \<circ> written_call) (fst (run basic_python (sample_pipeline reversed_storage)))
       = [2, 2, 2, 1, 1, 1]"
  by code_simp

text \<open>
  C8, amended. For a corpus that validation accepts, with \<open>ids\<close> the IDs of the raw files
  in the order of the directory listing, \<open>run\<close> writes article after article in the order
  in which the IDs first occur in \<open>ids\<close> (the insertion order of the storage), for each
  article the cleaned text, then the bare CONLL-U, then the tagged CONLL-U; a run that
  ends without an exception writes for every article, and a run that an exception ends
  has written for the articles before the one that failed. The order is by increasing
  ID when the listing is.
\<close>

theorem run_writes_in_listing_order:
  assumes "CorpusManager py path = Inr st"
      and "try_map (leading_id py) (glob_suffix (u ''_raw.txt'') path) = Inr ids"
      and "corpus pl = st"
      and "run py pl = (evs, err)"
  shows "\<exists>n \<le> length (first_occurrences ids).
           map written_call evs = concat (map artifacts_of (take n (first_occurrences ids)))
           \<and> (err = None \<longrightarrow> n = length (first_occurrences ids))"
proof -
  from assms(1) have scan: "scan_files py (glob_suffix (u ''_raw.txt'') path) [] = Inr st"
    by (auto simp: CorpusManager_def scan_dataset_def split: sum.splits)
  have keys: "map fst st = first_occurrences ids"
    using scan_files_keys [OF scan assms(2)] by simp
  have "\<forall>(k, a) \<in> set st. article_id a = k"
    using scan_files_article_ids [OF scan] by simp
  then have ids: "map article_id (map snd st) = first_occurrences ids"
    using storage_article_ids [of st] keys by simp
  from assms(3,4) have "run_articles py pl (map snd st) [] = (evs, err)"
    by (simp add: run_def)
  from run_articles_calls [OF this] obtain n where n: "n \<le> length (map snd st)"
      "map written_call evs = concat (map (\<lambda>a. artifacts_of (article_id a)) (take n (map snd st)))"
      "err = None \<longrightarrow> n = length (map snd st)"
    by auto
  have "map (\<lambda>a. artifacts_of (article_id a)) (take n (map snd st))
          = map artifacts_of (take n (map article_id (map snd st)))"
    by (simp add: take_map comp_def)
  then have calls: "map (\<lambda>a. artifacts_of (article_id a)) (take n (map snd st))
          = map artifacts_of (take n (first_occurrences ids))"
    by (simp only: ids)
  have "length (map snd st) = length (first_occurrences ids)"
    using arg_cong [OF ids, of length] by simp
  with n calls show ?thesis
    by (intro exI [of _ n]) simp
qed


text \<open>
  The amended C8 on \<open>reversed_listing_dir\<close>: the IDs are listed as 2, 1, and the calls
  are the three of article 2, then the three of article 1.
\<close>

theorem run_writes_in_listing_order_witness:
  "CorpusManager basic_python reversed_listing_dir = Inr reversed_storage
   \<and> try_map (leading_id basic_python) (glob_suffix (u ''_raw.txt'') reversed_listing_dir) = Inr [2, 1]
   \<and> corpus (sample_pipeline reversed_storage) = reversed_storage
   \<and> snd (run basic_python (sample_pipeline reversed_storage)) = None
   \<and> map written_call (fst (run basic_python (sample_pipeline reversed_storage)))
       = artifacts_of 2 @ artifacts_of 1"
proof -
  have cm: "CorpusManager basic_python reversed_listing_dir = Inr reversed_storage"
    by code_simp
  have ids: "try_map (leading_id basic_python) (glob_suffix (u ''_raw.txt'') reversed_listing_dir)
      = Inr [2, 1]"
    by code_simp
  have pl: "corpus (sample_pipeline reversed_storage) = reversed_storage"
    by (simp add: sample_pipeline_def)
  have err: "snd (run basic_python (sample_pipeline reversed_storage)) = None"
    by code_simp
  have r: "run basic_python (sample_pipeline reversed_storage)
      = (fst (run basic_python (sample_pipeline reversed_storage)), None)"
    using err by (simp add: prod_eq_iff)
  have fo: "first_occurrences [2, 1] = [2, 1]"
    by simp
  from run_writes_in_listing_order [OF cm ids pl r]
  have "map written_call (fst (run basic_python (sample_pipeline reversed_storage)))
       = artifacts_of 2 @ artifacts_of 1"
    unfolding fo by auto
  with cm ids pl err show ?thesis by simp
qed

end
